theory Spec2Isabelle
  imports Complex_Main "HOL-Library.Word" "HOL-Library.Sublist"
begin

section \<open>JavaScript values\<close>

text \<open>
  A JavaScript string is a sequence of UTF-16 code units, and \<open>length\<close>, \<open>substring\<close>,
  \<open>startsWith\<close>, \<open>split\<close> and \<open>trim\<close> all work on code units. The literals of the
  source are ASCII apart from one emoji, which is written as its surrogate pair.
\<close>

type_synonym jsstring = "16 word list"

definition ascii :: "string \<Rightarrow> jsstring" where
  "ascii s = map (\<lambda>c. of_nat (of_char c :: nat)) s"

text \<open>
  The characters \<open>String.prototype.trim\<close> removes and the class \<open>\s\<close> of a regular
  expression matches: ECMAScript's WhiteSpace and LineTerminator.
\<close>

definition is_white :: "16 word \<Rightarrow> bool" where
  "is_white c \<longleftrightarrow>
     c \<in> set [0x9, 0xA, 0xB, 0xC, 0xD, 0x20, 0xA0, 0x1680, 0x2028, 0x2029,
               0x202F, 0x205F, 0x3000, 0xFEFF]
     \<or> (0x2000 \<le> c \<and> c \<le> 0x200A)"

definition trim :: "jsstring \<Rightarrow> jsstring" where
  "trim s = rev (dropWhile is_white (rev (dropWhile is_white s)))"

definition startsWith :: "jsstring \<Rightarrow> jsstring \<Rightarrow> bool" where
  "startsWith s p \<longleftrightarrow> take (length p) s = p"

definition endsWith :: "jsstring \<Rightarrow> jsstring \<Rightarrow> bool" where
  "endsWith s p \<longleftrightarrow> length p \<le> length s \<and> drop (length s - length p) s = p"

text \<open>\<open>s.split(' ')\<close>: the pieces between the occurrences of the separator, empty ones kept.\<close>

fun split_on :: "'a \<Rightarrow> 'a list \<Rightarrow> 'a list list" where
  "split_on c [] = [[]]"
| "split_on c (x # xs) =
     (if x = c then [] # split_on c xs
      else (case split_on c xs of p # ps \<Rightarrow> (x # p) # ps | [] \<Rightarrow> [[x]]))"

text \<open>The decimal digits of a natural number, as a template literal renders it.\<close>

function show_nat :: "nat \<Rightarrow> jsstring" where
  "show_nat n = (if n < 10 then [of_nat (48 + n)] else show_nat (n div 10) @ [of_nat (48 + n mod 10)])"
  by pat_completeness auto
termination
  by (relation "measure id") auto

declare show_nat.simps [simp del]

text \<open>
  The values \<open>JSON.parse\<close> produces. A number is a double that is not NaN; only its
  truthiness and its comparison with 5 are read here, so a finite one is its exact value.
  An object is the list of its own properties.
\<close>

datatype js_number = Fin rat | PInf | MInf

datatype json =
    JNull
  | JBool bool
  | JNum js_number
  | JStr jsstring
  | JArr "json list"
  | JObj "(jsstring \<times> json) list"

text \<open>
  What this code can throw: an \<open>Error\<close> with its message, or the engine's \<open>TypeError\<close>
  (a property read on \<open>null\<close> or \<open>undefined\<close>, a call of something that is no function).
\<close>

datatype failure = Thrown jsstring | TypeError

fun truthy :: "json \<Rightarrow> bool" where
  "truthy JNull = False"
| "truthy (JBool b) = b"
| "truthy (JNum (Fin x)) = (x \<noteq> 0)"
| "truthy (JNum _) = True"
| "truthy (JStr s) = (s \<noteq> [])"
| "truthy (JArr _) = True"
| "truthy (JObj _) = True"

text \<open>\<open>v || d\<close>, where \<open>None\<close> is \<open>undefined\<close>.\<close>

fun or_default :: "json option \<Rightarrow> json \<Rightarrow> json" where
  "or_default None d = d"
| "or_default (Some v) d = (if truthy v then v else d)"

text \<open>
  \<open>v.name\<close> for a property name that no built-in prototype defines (\<open>caption\<close>,
  \<open>hashtags\<close>, \<open>cta\<close>, \<open>imagePrompt\<close>, \<open>hook\<close>, \<open>script\<close>): \<open>null\<close> throws, an
  object gives its own property, every other value gives \<open>undefined\<close>.
\<close>

fun js_get :: "json \<Rightarrow> jsstring \<Rightarrow> failure + json option" where
  "js_get JNull k = Inl TypeError"
| "js_get (JObj kvs) k = Inr (map_of kvs k)"
| "js_get _ k = Inr None"

section \<open>The world outside the code\<close>

datatype provider = OpenAI | Gemini | Groq

text \<open>
  The built-ins and the services the code calls. A provider call either throws (\<open>Inl\<close> the
  message of the exception) or returns the text of the completion. The prompts of one
  request are fixed, so the reply is indexed by the provider and the attempt alone, and the
  prompts themselves are not built here.
\<close>

record inline_data =
  data :: jsstring
  mimeType :: "jsstring option"

record part =
  part_text :: "jsstring option"
  inlineData :: "inline_data option"

text \<open>
  \<open>JSON_parse\<close>: \<open>Inl\<close> is the message of the SyntaxError. \<open>coerced_ge v n\<close> is
  \<open>v >= n\<close> for a string, an array or an object \<open>v\<close>, which the engine first converts to
  a number. \<open>toLowerCase\<close> is the method of strings. \<open>member_text k\<close> is the text a
  template literal gives for the member \<open>k\<close> of \<open>Object.prototype\<close>. \<open>ad_reply\<close> is
  Gemini's reply to the prompt of the ad, \<open>image_reply\<close> the parts of the image model's
  first candidate, \<open>upload\<close> the public URL the storage gives (\<open>Inl\<close>: the call threw).
\<close>

record world =
  JSON_parse :: "jsstring \<Rightarrow> jsstring + json"
  coerced_ge :: "json \<Rightarrow> rat \<Rightarrow> bool"
  toLowerCase :: "jsstring \<Rightarrow> jsstring"
  member_text :: "jsstring \<Rightarrow> jsstring"
  reply :: "provider \<Rightarrow> nat \<Rightarrow> jsstring + jsstring"
  ad_reply :: "jsstring + jsstring"
  image_reply :: "jsstring + part list"
  upload :: "jsstring + jsstring"

section \<open>Provider adapters (openaiService.js)\<close>

text \<open>
  The three \<open>if\<close> statements that remove a markdown fence; \<open>_cleanJsonResponse\<close> and
  \<open>generateUGCAdContent\<close> both contain them, word for word.
\<close>

definition strip_fence :: "jsstring \<Rightarrow> jsstring" where
  "strip_fence text =
     (let cleaned = text;
          cleaned = (if startsWith cleaned (ascii ''```json'') then drop 7 cleaned else cleaned);
          cleaned = (if startsWith cleaned (ascii ''```'') then drop 3 cleaned else cleaned);
          cleaned = (if endsWith cleaned (ascii ''```'') then take (length cleaned - 3) cleaned
                     else cleaned)
      in cleaned)"

definition cleanJsonResponse :: "world \<Rightarrow> jsstring \<Rightarrow> jsstring + json" where
  "cleanJsonResponse w text = JSON_parse w (trim (strip_fence text))"

definition generateWithOpenAI :: "world \<Rightarrow> jsstring + json" where
  "generateWithOpenAI w =
     (case reply w OpenAI 0 of Inl m \<Rightarrow> Inl m | Inr content \<Rightarrow> JSON_parse w content)"

definition generateWithGemini :: "world \<Rightarrow> nat \<Rightarrow> jsstring + json" where
  "generateWithGemini w attempt =
     (case reply w Gemini attempt of Inl m \<Rightarrow> Inl m | Inr t \<Rightarrow> cleanJsonResponse w (trim t))"

definition generateWithGroq :: "world \<Rightarrow> nat \<Rightarrow> jsstring + json" where
  "generateWithGroq w attempt =
     (case reply w Groq attempt of Inl m \<Rightarrow> Inl m | Inr t \<Rightarrow> cleanJsonResponse w (trim t))"

section \<open>The fallback orchestrator (openaiService.js, \<open>_generateContent\<close>)\<close>

text \<open>
  Which clients the constructor created: a field is \<open>True\<close> when the client is not
  \<open>null\<close>, that is when its API key is set and the client was built.
\<close>

record clients =
  openaiClient :: bool
  geminiClient :: bool
  groqClient :: bool

text \<open>
  What the orchestrator does to the outside, in order: a provider call (with the loop's
  attempt index, 0 for the first attempt) and a wait of so many milliseconds.
\<close>

datatype event = Attempt provider nat | Delay nat

text \<open>
  The Gemini loop \<open>for (let attempt = 0; attempt < 2; attempt++)\<close>: \<open>Some v\<close> is the
  \<open>return\<close> inside the loop, \<open>None\<close> is leaving the loop at \<open>attempt = 2\<close>.
\<close>

function gemini_loop :: "world \<Rightarrow> nat \<Rightarrow> event list \<Rightarrow> event list \<times> json option" where
  "gemini_loop w attempt tr =
     (if attempt < 2 then
        (let tr = (if attempt > 0 then tr @ [Delay 2000] else tr);
             tr = tr @ [Attempt Gemini attempt]
         in case generateWithGemini w attempt of
              Inr v \<Rightarrow> (tr, Some v)
            | Inl m \<Rightarrow> gemini_loop w (attempt + 1) tr)
      else (tr, None))"
  by pat_completeness auto
termination
  by (relation "measure (\<lambda>(w, attempt, tr). 2 - attempt)") auto

declare gemini_loop.simps [simp del]

text \<open>
  The Groq loop: as the Gemini loop, and a failure of the attempt with index 1 throws
  \<open>All AI providers failed\<close> with the message of that failure.
\<close>

function groq_loop :: "world \<Rightarrow> nat \<Rightarrow> event list \<Rightarrow> event list \<times> (failure + json) option" where
  "groq_loop w attempt tr =
     (if attempt < 2 then
        (let tr = (if attempt > 0 then tr @ [Delay 2000] else tr);
             tr = tr @ [Attempt Groq attempt]
         in case generateWithGroq w attempt of
              Inr v \<Rightarrow> (tr, Some (Inr v))
            | Inl m \<Rightarrow>
                if attempt = 1
                then (tr, Some (Inl (Thrown (ascii ''All AI providers failed. Last error: '' @ m))))
                else groq_loop w (attempt + 1) tr)
      else (tr, None))"
  by pat_completeness auto
termination
  by (relation "measure (\<lambda>(w, attempt, tr). 2 - attempt)") auto

declare groq_loop.simps [simp del]

definition no_provider :: failure where
  "no_provider = Thrown (ascii ''No AI provider available. Configure OpenAI, Google, or Groq API key.'')"

definition generateContent :: "world \<Rightarrow> clients \<Rightarrow> event list \<times> (failure + json)" where
  "generateContent w c =
     (let (tr, r) =
            (if openaiClient c then
               (case generateWithOpenAI w of
                  Inr v \<Rightarrow> ([Attempt OpenAI 0], Some v)
                | Inl m \<Rightarrow> ([Attempt OpenAI 0], None))
             else ([], None))
      in case r of
           Some v \<Rightarrow> (tr, Inr v)
         | None \<Rightarrow>
             (let (tr, r) = (if geminiClient c then gemini_loop w 0 tr else (tr, None))
              in case r of
                   Some v \<Rightarrow> (tr, Inr v)
                 | None \<Rightarrow>
                     (let (tr, r) = (if groqClient c then groq_loop w 0 tr else (tr, None))
                      in case r of
                           Some res \<Rightarrow> (tr, res)
                         | None \<Rightarrow> (tr, Inl no_provider))))"

section \<open>Object literals used as lookup tables\<close>

text \<open>
  \<open>table[key]\<close> on an object literal finds an own property or else a member of
  \<open>Object.prototype\<close>; every such member is a function or an object, hence truthy.
\<close>

datatype 'a member = Own 'a | Inherited jsstring

definition object_prototype_names :: "jsstring list" where
  "object_prototype_names = map ascii
     [''constructor'', ''__defineGetter__'', ''__defineSetter__'', ''hasOwnProperty'',
      ''__lookupGetter__'', ''__lookupSetter__'', ''isPrototypeOf'', ''propertyIsEnumerable'',
      ''toString'', ''valueOf'', ''__proto__'', ''toLocaleString'']"

definition index :: "(jsstring \<times> 'a) list \<Rightarrow> jsstring \<Rightarrow> 'a member option" where
  "index table k =
     (case map_of table k of
        Some v \<Rightarrow> Some (Own v)
      | None \<Rightarrow> if k \<in> set object_prototype_names then Some (Inherited k) else None)"

record platform_profile =
  charLimit :: nat
  hashtagLimit :: nat
  bestPractices :: jsstring

definition instagram :: platform_profile where
  "instagram = \<lparr>charLimit = 2200, hashtagLimit = 30,
     bestPractices = ascii ''Use emojis, line breaks, and storytelling. End with a CTA.''\<rparr>"

definition platforms :: "(jsstring \<times> platform_profile) list" where
  "platforms =
     [(ascii ''instagram'', instagram),
      (ascii ''linkedin'', \<lparr>charLimit = 3000, hashtagLimit = 5,
         bestPractices = ascii ''Professional tone, use bullet points, share insights and value.''\<rparr>),
      (ascii ''twitter'', \<lparr>charLimit = 280, hashtagLimit = 3,
         bestPractices = ascii ''Be concise, use hooks, create threads for longer content.''\<rparr>),
      (ascii ''facebook'', \<lparr>charLimit = 63206, hashtagLimit = 10,
         bestPractices = ascii ''Tell stories, ask questions, encourage engagement.''\<rparr>),
      (ascii ''tiktok'', \<lparr>charLimit = 2200, hashtagLimit = 10,
         bestPractices = ascii ''Trendy, casual, use popular hashtags and hooks.''\<rparr>),
      (ascii ''youtube'', \<lparr>charLimit = 5000, hashtagLimit = 15,
         bestPractices = ascii ''SEO-optimized descriptions, include timestamps and links.''\<rparr>)]"

definition getPlatformContext :: "jsstring \<Rightarrow> platform_profile member" where
  "getPlatformContext platform =
     (case index platforms platform of Some m \<Rightarrow> m | None \<Rightarrow> Own instagram)"

section \<open>The content post-processor (openaiService.js)\<close>

text \<open>
  The requests as the validation layer hands them over. The fields that the video request
  shares with the post request carry the prefix \<open>v_\<close>.
\<close>

record post_request =
  topic :: jsstring
  platform :: jsstring
  tone :: jsstring
  goal :: jsstring
  includeHashtags :: bool
  includeCTA :: bool
  includeEmojis :: bool

record video_request =
  v_topic :: jsstring
  v_platform :: jsstring
  v_tone :: jsstring
  v_goal :: jsstring
  duration :: jsstring

record content_stats =
  characters :: nat
  words :: nat
  readTime :: jsstring
  engagementScore :: jsstring

record response =
  success :: bool
  hashtags :: json
  cta :: json
  stats :: content_stats
  creditsUsed :: nat
  creditsRemaining :: nat

record text_response = response +
  caption :: jsstring

record image_response = text_response +
  imagePrompt :: json

record video_response = response +
  hook :: json
  script :: jsstring

definition and_then :: "failure + 'a \<Rightarrow> ('a \<Rightarrow> failure + 'b) \<Rightarrow> failure + 'b" where
  "and_then r f = (case r of Inl e \<Rightarrow> Inl e | Inr x \<Rightarrow> f x)"

text \<open>\<open>v.length\<close> for a \<open>v\<close> that is neither \<open>null\<close> nor \<open>undefined\<close>.\<close>

fun js_length :: "json \<Rightarrow> json option" where
  "js_length (JArr xs) = Some (JNum (Fin (of_nat (length xs))))"
| "js_length (JStr s) = Some (JNum (Fin (of_nat (length s))))"
| "js_length (JObj kvs) = map_of kvs (ascii ''length'')"
| "js_length _ = None"

text \<open>\<open>v?.length\<close>.\<close>

fun optional_length :: "json option \<Rightarrow> json option" where
  "optional_length None = None"
| "optional_length (Some JNull) = None"
| "optional_length (Some v) = js_length v"

text \<open>\<open>x >= n\<close> for a number \<open>n\<close>; \<open>undefined\<close> converts to NaN, which compares false.\<close>

fun js_ge :: "world \<Rightarrow> json option \<Rightarrow> rat \<Rightarrow> bool" where
  "js_ge w None n = False"
| "js_ge w (Some (JNum (Fin x))) n = (x \<ge> n)"
| "js_ge w (Some (JNum PInf)) n = True"
| "js_ge w (Some (JNum MInf)) n = False"
| "js_ge w (Some JNull) n = (0 \<ge> n)"
| "js_ge w (Some (JBool b)) n = ((if b then 1 else 0) \<ge> n)"
| "js_ge w (Some v) n = coerced_ge w v n"

definition stats_of :: "jsstring \<Rightarrow> nat \<Rightarrow> jsstring \<Rightarrow> content_stats" where
  "stats_of primary n score =
     \<lparr>characters = length primary, words = n,
      readTime = show_nat (max 1 (n div 3)) @ ascii '' sec'',
      engagementScore = score\<rparr>"

text \<open>
  \<open>generateTextPost\<close> after the orchestrator has returned \<open>result\<close>. \<open>caption.split\<close>
  is a function only when \<open>caption\<close> is a string; \<open>capt\<close> and \<open>nwords\<close> stand for the
  source's \<open>caption\<close> and \<open>words\<close>.
\<close>

definition textPostResponse :: "world \<Rightarrow> post_request \<Rightarrow> json \<Rightarrow> failure + text_response" where
  "textPostResponse w request result =
     and_then (js_get result (ascii ''caption'')) (\<lambda>c.
       case or_default c (JStr []) of
         JStr capt \<Rightarrow>
           (let nwords = length (split_on 0x20 capt) in
            and_then (js_get result (ascii ''hashtags'')) (\<lambda>h.
            and_then (js_get result (ascii ''cta'')) (\<lambda>a.
              Inr \<lparr>success = True,
                   hashtags = (if includeHashtags request then or_default h (JArr []) else JArr []),
                   cta = (if includeCTA request then or_default a (JStr []) else JStr []),
                   stats = stats_of capt nwords
                     (if js_ge w (optional_length h) 5 then ascii ''High'' else ascii ''Medium''),
                   creditsUsed = 1,
                   creditsRemaining = 149,
                   caption = capt\<rparr>)))
       | _ \<Rightarrow> Inl TypeError)"

definition imagePostResponse :: "post_request \<Rightarrow> json \<Rightarrow> failure + image_response" where
  "imagePostResponse request result =
     and_then (js_get result (ascii ''caption'')) (\<lambda>c.
       case or_default c (JStr []) of
         JStr capt \<Rightarrow>
           (let nwords = length (split_on 0x20 capt) in
            and_then (js_get result (ascii ''hashtags'')) (\<lambda>h.
            and_then (js_get result (ascii ''cta'')) (\<lambda>a.
            and_then (js_get result (ascii ''imagePrompt'')) (\<lambda>i.
              Inr \<lparr>success = True,
                   hashtags = or_default h (JArr []),
                   cta = or_default a (JStr []),
                   stats = stats_of capt nwords (ascii ''High''),
                   creditsUsed = 2,
                   creditsRemaining = 23,
                   caption = capt,
                   imagePrompt = or_default i (JStr [])\<rparr>))))
       | _ \<Rightarrow> Inl TypeError)"

definition videoScriptResponse :: "video_request \<Rightarrow> json \<Rightarrow> failure + video_response" where
  "videoScriptResponse request result =
     and_then (js_get result (ascii ''script'')) (\<lambda>s.
       case or_default s (JStr []) of
         JStr scr \<Rightarrow>
           (let nwords = length (split_on 0x20 scr) in
            and_then (js_get result (ascii ''hook'')) (\<lambda>k.
            and_then (js_get result (ascii ''cta'')) (\<lambda>a.
            and_then (js_get result (ascii ''hashtags'')) (\<lambda>h.
              Inr \<lparr>success = True,
                   hashtags = or_default h (JArr []),
                   cta = or_default a (JStr []),
                   stats = stats_of scr nwords (ascii ''High''),
                   creditsUsed = 3,
                   creditsRemaining = 7,
                   hook = or_default k (JStr []),
                   script = scr\<rparr>))))
       | _ \<Rightarrow> Inl TypeError)"

text \<open>
  The three entry points: the prompts are built (which cannot fail), the orchestrator runs,
  and its result is shaped; an exception of the orchestrator passes through.
\<close>

definition generateTextPost ::
  "world \<Rightarrow> clients \<Rightarrow> post_request \<Rightarrow> event list \<times> (failure + text_response)" where
  "generateTextPost w c request =
     (let platformCtx = getPlatformContext (platform request);
          (tr, r) = generateContent w c
      in (tr, and_then r (textPostResponse w request)))"

definition generateImagePost ::
  "world \<Rightarrow> clients \<Rightarrow> post_request \<Rightarrow> event list \<times> (failure + image_response)" where
  "generateImagePost w c request =
     (let (tr, r) = generateContent w c in (tr, and_then r (imagePostResponse request)))"

definition generateVideoScript ::
  "world \<Rightarrow> clients \<Rightarrow> video_request \<Rightarrow> event list \<times> (failure + video_response)" where
  "generateVideoScript w c request =
     (let (tr, r) = generateContent w c in (tr, and_then r (videoScriptResponse request)))"

section \<open>The UGC ad path (geminiService.js and the route \<open>/generate/ugc-ad\<close>)\<close>

record gemini_service =
  apiKey :: "jsstring option"
  client :: bool

definition isConfigured :: "gemini_service \<Rightarrow> bool" where
  "isConfigured s \<longleftrightarrow> client s \<and> (case apiKey s of None \<Rightarrow> False | Some k \<Rightarrow> k \<noteq> [])"

record ugc_request =
  productName :: jsstring
  productDescription :: jsstring
  adType :: jsstring
  imageFormat :: jsstring
  visualStyle :: jsstring
  mood :: jsstring
  targetAudience :: "jsstring option"
  additionalDetails :: "jsstring option"

record ugc_stats =
  estimatedReach :: jsstring
  engagementRate :: jsstring
  recommendedBudget :: jsstring
  bestTimeToPost :: jsstring

text \<open>
  The object \<open>generateUGCAdContent\<close> returns: \<open>base\<close> is the parsed value (an object or an
  array) or the fallback object, \<open>stats_prop\<close> the property \<open>stats\<close> the code sets on it.
\<close>

record ugc_result =
  base :: json
  stats_prop :: ugc_stats

definition styleMap :: "(jsstring \<times> jsstring) list" where
  "styleMap =
     [(ascii ''authentic'', ascii ''Raw, real, unpolished''),
      (ascii ''minimal'', ascii ''Clean, simple, modern''),
      (ascii ''vibrant'', ascii ''Bold, colorful, energetic''),
      (ascii ''professional'', ascii ''Polished, studio-quality'')]"

definition adTypeMap :: "(jsstring \<times> jsstring) list" where
  "adTypeMap =
     [(ascii ''testimonial'', ascii ''Testimonial''),
      (ascii ''before-after'', ascii ''Before/After''),
      (ascii ''unboxing'', ascii ''Unboxing''),
      (ascii ''lifestyle'', ascii ''Lifestyle''),
      (ascii ''product-showcase'', ascii ''Product Focus''),
      (ascii ''user-story'', ascii ''User Story'')]"

definition ad_stats :: ugc_stats where
  "ad_stats = \<lparr>estimatedReach = ascii ''5K-15K'', engagementRate = ascii ''3.5-7%'',
     recommendedBudget = ascii ''$50-200'', bestTimeToPost = ascii ''Mon-Fri, 6-9 PM''\<rparr>"

text \<open>A table entry inside a template literal.\<close>

fun member_string :: "world \<Rightarrow> jsstring member \<Rightarrow> jsstring" where
  "member_string w (Own s) = s"
| "member_string w (Inherited k) = member_text w k"

text \<open>
  The object of the \<open>catch\<close> block, given \<open>adTypeName\<close> and \<open>styleDesc\<close>.
  \<open>adTypeName.toLowerCase()\<close> is evaluated first and is a call of \<open>undefined\<close> when
  \<open>adTypeName\<close> is a member of \<open>Object.prototype\<close>.
\<close>

definition fallback ::
  "world \<Rightarrow> ugc_request \<Rightarrow> jsstring member \<Rightarrow> jsstring member \<Rightarrow> failure + ugc_result" where
  "fallback w r adName style =
     (case adName of
        Inherited k \<Rightarrow> Inl TypeError
      | Own name \<Rightarrow>
          Inr \<lparr>base = JObj
                 [(ascii ''imagePrompt'', JStr
                     (ascii ''Create a realistic UGC-style '' @ toLowerCase w name
                      @ ascii '' ad for '' @ productName r @ ascii ''. '' @ productDescription r
                      @ ascii ''. Visual style: '' @ member_string w style
                      @ ascii ''. Mood: '' @ mood r
                      @ ascii ''. Make it look authentic, natural, and user-generated.'')),
                  (ascii ''caption'', JStr
                     (ascii ''Just tried '' @ productName r @ ascii '' and I'm obsessed! ''
                      @ [0xD83D, 0xDE0D] @ ascii '' '' @ take 100 (productDescription r)
                      @ ascii ''... You NEED to try this!'')),
                  (ascii ''hashtags'', JArr
                     [JStr (ascii ''#'' @ filter (\<lambda>ch. \<not> is_white ch) (productName r)),
                      JStr (ascii ''#UGC''), JStr (ascii ''#Viral''), JStr (ascii ''#MustTry''),
                      JStr (ascii ''#ProductReview'')]),
                  (ascii ''cta'', JStr
                     (ascii ''Tap the link in bio to get '' @ productName r @ ascii '' now!''))],
               stats_prop = ad_stats\<rparr>)"

text \<open>
  \<open>parsedResult.stats = {...}\<close> in a module, hence in strict mode: it throws on \<open>null\<close>
  and on a primitive, and sets the property on an object or an array.
\<close>

fun add_stats :: "json \<Rightarrow> failure + ugc_result" where
  "add_stats (JObj kvs) = Inr \<lparr>base = JObj kvs, stats_prop = ad_stats\<rparr>"
| "add_stats (JArr xs) = Inr \<lparr>base = JArr xs, stats_prop = ad_stats\<rparr>"
| "add_stats _ = Inl TypeError"

definition styleDesc :: "ugc_request \<Rightarrow> jsstring member" where
  "styleDesc r =
     (case index styleMap (visualStyle r) of Some m \<Rightarrow> m | None \<Rightarrow> Own (ascii ''authentic''))"

definition adTypeName :: "ugc_request \<Rightarrow> jsstring member" where
  "adTypeName r = (case index adTypeMap (adType r) of Some m \<Rightarrow> m | None \<Rightarrow> Own (adType r))"

text \<open>
  The \<open>try\<close> block ends in the \<open>catch\<close> block on a failed call, on a parse error and on a
  parsed value that cannot take the property \<open>stats\<close>.
\<close>

definition generateUGCAdContent :: "world \<Rightarrow> gemini_service \<Rightarrow> ugc_request \<Rightarrow> failure + ugc_result" where
  "generateUGCAdContent w s r =
     (if \<not> isConfigured s
      then Inl (Thrown (ascii ''Gemini API is not configured. Please set GOOGLE_API_KEY in .env''))
      else
        (case ad_reply w of
           Inl m \<Rightarrow> fallback w r (adTypeName r) (styleDesc r)
         | Inr t \<Rightarrow>
             (let responseText = trim t;
                  responseText = strip_fence responseText;
                  responseText = trim responseText
              in case JSON_parse w responseText of
                   Inl m \<Rightarrow> fallback w r (adTypeName r) (styleDesc r)
                 | Inr parsedResult \<Rightarrow>
                     (case add_stats parsedResult of
                        Inl e \<Rightarrow> fallback w r (adTypeName r) (styleDesc r)
                      | Inr res \<Rightarrow> Inr res))))"

record image =
  image_data :: jsstring
  image_mimeType :: jsstring

datatype image_result = ImageOk "image list" | ImageFailed jsstring

text \<open>The loop over the parts: a part with a truthy \<open>text\<close> is logged, one with \<open>inlineData\<close> is kept.\<close>

fun images_of :: "part list \<Rightarrow> image list" where
  "images_of [] = []"
| "images_of (p # ps) =
     (if (case part_text p of None \<Rightarrow> False | Some t \<Rightarrow> t \<noteq> []) then images_of ps
      else (case inlineData p of
              None \<Rightarrow> images_of ps
            | Some i \<Rightarrow>
                (let mt = (case mimeType i of
                             None \<Rightarrow> ascii ''image/png''
                           | Some m \<Rightarrow> if m \<noteq> [] then m else ascii ''image/png'')
                 in \<lparr>image_data = ascii ''data:'' @ mt @ ascii '';base64,'' @ data i,
                      image_mimeType = mt\<rparr> # images_of ps)))"

definition generateImage :: "world \<Rightarrow> gemini_service \<Rightarrow> jsstring \<Rightarrow> failure + image_result" where
  "generateImage w s prompt =
     (if \<not> isConfigured s
      then Inl (Thrown (ascii ''Gemini API is not configured. Please set GOOGLE_API_KEY in .env''))
      else Inr
        (case image_reply w of
           Inl m \<Rightarrow> ImageFailed m
         | Inr parts \<Rightarrow>
             (let images = images_of parts
              in if images = []
                 then ImageFailed (ascii ''No images were generated. The model may have blocked the request due to safety filters.'')
                 else ImageOk images)))"

text \<open>
  The JSON body of the route's answer; its fields carry the prefix \<open>ad_\<close> to keep them
  apart from those of the other responses. A property that is \<open>undefined\<close> is \<open>None\<close>.
\<close>

record ugc_response =
  ad_success :: bool
  ad_imagePrompt :: jsstring
  ad_caption :: "json option"
  ad_hashtags :: "json option"
  ad_cta :: "json option"
  ad_stats_field :: ugc_stats
  ad_creditsUsed :: nat
  ad_creditsRemaining :: nat
  generatedImageUrl :: "jsstring option"

text \<open>
  The handler of \<open>POST /generate/ugc-ad\<close> from the validated request on. \<open>supabase\<close> says
  whether the storage service is configured. The insert into the table \<open>ugc_ads\<close> has its
  own \<open>try\<close> and changes nothing in the answer. \<open>Inl\<close> is the answer with status 500.
  \<open>result.imagePrompt.substring\<close> is a function only when \<open>imagePrompt\<close> is a string.
\<close>

definition ugcAdRoute :: "world \<Rightarrow> gemini_service \<Rightarrow> bool \<Rightarrow> ugc_request \<Rightarrow> failure + ugc_response" where
  "ugcAdRoute w s supabase r =
     and_then (generateUGCAdContent w s r) (\<lambda>result.
     and_then (js_get (base result) (ascii ''imagePrompt'')) (\<lambda>ip.
       case ip of
         Some (JStr prompt) \<Rightarrow>
           and_then (generateImage w s prompt) (\<lambda>imageResult.
             (let url = (case imageResult of
                           ImageOk (img # rest) \<Rightarrow>
                             Some (if supabase
                                   then (case upload w of Inr u \<Rightarrow> u | Inl m \<Rightarrow> image_data img)
                                   else image_data img)
                         | _ \<Rightarrow> None)
              in and_then (js_get (base result) (ascii ''caption'')) (\<lambda>cap.
                 and_then (js_get (base result) (ascii ''hashtags'')) (\<lambda>h.
                 and_then (js_get (base result) (ascii ''cta'')) (\<lambda>a.
                   Inr \<lparr>ad_success = True, ad_imagePrompt = prompt, ad_caption = cap,
                        ad_hashtags = h, ad_cta = a, ad_stats_field = stats_prop result,
                        ad_creditsUsed = 2, ad_creditsRemaining = 1000,
                        generatedImageUrl = url\<rparr>)))))
       | _ \<Rightarrow> Inl TypeError))"

section \<open>Reading a run\<close>

text \<open>What one attempt of a provider gives: the parsed value or the message of the failure.\<close>

fun attempt_outcome :: "world \<Rightarrow> provider \<Rightarrow> nat \<Rightarrow> jsstring + json" where
  "attempt_outcome w OpenAI a = generateWithOpenAI w"
| "attempt_outcome w Gemini a = generateWithGemini w a"
| "attempt_outcome w Groq a = generateWithGroq w a"


text \<open>The attempt indices of one provider in a trace, and the providers called, in order.\<close>

definition attempts_of :: "provider \<Rightarrow> event list \<Rightarrow> nat list" where
  "attempts_of p tr =
     concat (map (\<lambda>e. case e of Attempt q a \<Rightarrow> if q = p then [a] else [] | Delay d \<Rightarrow> []) tr)"

definition called :: "event list \<Rightarrow> provider list" where
  "called tr = concat (map (\<lambda>e. case e of Attempt q a \<Rightarrow> [q] | Delay d \<Rightarrow> []) tr)"

text \<open>Every event of a trace paired with the event just before it (\<open>None\<close> for the first).\<close>

definition preceded :: "event list \<Rightarrow> (event option \<times> event) list" where
  "preceded tr = zip (None # map Some tr) tr"

text \<open>The configured adapters in the order in which \<open>_generateContent\<close> tests them.\<close>

definition configured :: "clients \<Rightarrow> provider list" where
  "configured c =
     (if openaiClient c then [OpenAI] else []) @ (if geminiClient c then [Gemini] else [])
     @ (if groqClient c then [Groq] else [])"

text \<open>
  The whitespace-delimited tokens of a text, as the specification counts words: the maximal
  runs of characters that are not whitespace.
\<close>

fun tokens_from :: "jsstring \<Rightarrow> jsstring \<Rightarrow> jsstring list" where
  "tokens_from cur [] = (if cur = [] then [] else [cur])"
| "tokens_from cur (x # xs) =
     (if is_white x then (if cur = [] then tokens_from [] xs else cur # tokens_from [] xs)
      else tokens_from (cur @ [x]) xs)"

definition whitespace_tokens :: "jsstring \<Rightarrow> jsstring list" where
  "whitespace_tokens s = tokens_from [] s"

section \<open>Sample runs\<close>

definition shoes_text :: jsstring where
  \<open>shoes_text = ascii ''{"caption": "Run faster, feel lighter.", "hashtags": ["#run","#shoes","#fitness","#gear","#new"], "cta": "Shop now!"}''\<close>

definition shoes :: json where
  "shoes = JObj
     [(ascii ''caption'', JStr (ascii ''Run faster, feel lighter.'')),
      (ascii ''hashtags'', JArr [JStr (ascii ''#run''), JStr (ascii ''#shoes''),
         JStr (ascii ''#fitness''), JStr (ascii ''#gear''), JStr (ascii ''#new'')]),
      (ascii ''cta'', JStr (ascii ''Shop now!''))]"

text \<open>
  A parser for the sample runs: it parses the two JSON texts that these runs hand to it and
  rejects the prose that they hand to it, as \<open>JSON.parse\<close> does; no other text reaches
  it in a sample run. The message of the rejection stands for the engine's own wording.
\<close>

definition sample_parse :: "jsstring \<Rightarrow> jsstring + json" where
  "sample_parse t =
     (if t = ascii ''{}'' then Inr (JObj [])
      else if t = shoes_text then Inr shoes
      else Inl (ascii ''Unexpected token''))"

definition lower_ascii :: "jsstring \<Rightarrow> jsstring" where
  "lower_ascii s = map (\<lambda>ch. if 0x41 \<le> ch \<and> ch \<le> 0x5A then ch + 0x20 else ch) s"

text \<open>
  A world in which every service call throws. No sample run compares a string, an array or
  an object with a number, or prints a member of \<open>Object.prototype\<close>, and the only string
  put in lower case is ASCII.
\<close>

definition all_down :: world where
  "all_down = \<lparr>JSON_parse = sample_parse, coerced_ge = (\<lambda>v n. False),
     toLowerCase = lower_ascii, member_text = (\<lambda>k. ascii ''function () { [native code] }''),
     reply = (\<lambda>p a. Inl (ascii ''timeout'')), ad_reply = Inl (ascii ''timeout''),
     image_reply = Inl (ascii ''timeout''), upload = Inl (ascii ''timeout'')\<rparr>"

text \<open>OpenAI answers the running-shoes request of the specification.\<close>

definition openai_up :: world where
  "openai_up = all_down\<lparr>reply := (\<lambda>p a. if p = OpenAI then Inr shoes_text else Inl (ascii ''timeout''))\<rparr>"

text \<open>Gemini fails once and then answers an empty object inside a fence.\<close>

definition gemini_second :: world where
  "gemini_second = all_down\<lparr>reply := (\<lambda>p a.
     if p = Gemini \<and> a = 1 then Inr (ascii ''```json'' @ [0xA] @ ascii ''{}'' @ [0xA] @ ascii ''```'')
     else Inl (ascii ''503''))\<rparr>"

text \<open>The models answer every prompt with prose instead of JSON.\<close>

definition prose_ad :: world where
  "prose_ad = all_down\<lparr>reply := (\<lambda>p a. Inr (ascii ''Sure! Here is your ad.'')),
     ad_reply := Inr (ascii ''Sure! Here is your ad.'')\<rparr>"

definition only_openai :: clients where
  "only_openai = \<lparr>openaiClient = True, geminiClient = False, groqClient = False\<rparr>"

definition only_gemini :: clients where
  "only_gemini = \<lparr>openaiClient = False, geminiClient = True, groqClient = False\<rparr>"

definition all_clients :: clients where
  "all_clients = \<lparr>openaiClient = True, geminiClient = True, groqClient = True\<rparr>"

definition no_clients :: clients where
  "no_clients = \<lparr>openaiClient = False, geminiClient = False, groqClient = False\<rparr>"

definition shoes_request :: post_request where
  "shoes_request = \<lparr>topic = ascii ''new running shoes'', platform = ascii ''twitter'',
     tone = ascii ''promotional'', goal = ascii ''conversion'', includeHashtags = True,
     includeCTA = True, includeEmojis = True\<rparr>"

definition shoes_video :: video_request where
  "shoes_video = \<lparr>v_topic = ascii ''new running shoes'', v_platform = ascii ''tiktok'',
     v_tone = ascii ''casual'', v_goal = ascii ''engagement'', duration = ascii ''30s''\<rparr>"

definition shoes_ad :: ugc_request where
  "shoes_ad = \<lparr>productName = ascii ''Air Run'', productDescription = ascii ''Light running shoes'',
     adType = ascii ''testimonial'', imageFormat = ascii ''square'', visualStyle = ascii ''minimal'',
     mood = ascii ''happy'', targetAudience = None, additionalDetails = None\<rparr>"


definition service :: gemini_service where
  "service = \<lparr>apiKey = Some (ascii ''key''), client = True\<rparr>"

section \<open>Properties\<close>




subsection \<open>The orchestrator\<close>

text \<open>The two loops, unrolled: the bound 2 is a literal.\<close>

lemma gemini_loop_2: "gemini_loop w (Suc (Suc 0)) tr = (tr, None)"
  by (subst gemini_loop.simps) simp

lemma gemini_loop_1: "gemini_loop w (Suc 0) tr =
  (case generateWithGemini w 1 of
     Inr v \<Rightarrow> (tr @ [Delay 2000, Attempt Gemini 1], Some v)
   | Inl m \<Rightarrow> (tr @ [Delay 2000, Attempt Gemini 1], None))"
  by (subst gemini_loop.simps) (simp add: gemini_loop_2 split: sum.splits)

lemma gemini_loop_0: "gemini_loop w 0 tr =
  (case generateWithGemini w 0 of
     Inr v \<Rightarrow> (tr @ [Attempt Gemini 0], Some v)
   | Inl m \<Rightarrow>
      (case generateWithGemini w 1 of
         Inr v \<Rightarrow> (tr @ [Attempt Gemini 0, Delay 2000, Attempt Gemini 1], Some v)
       | Inl m' \<Rightarrow> (tr @ [Attempt Gemini 0, Delay 2000, Attempt Gemini 1], None)))"
  by (subst gemini_loop.simps) (simp add: gemini_loop_1 split: sum.splits)

lemma groq_loop_1: "groq_loop w (Suc 0) tr =
  (case generateWithGroq w 1 of
     Inr v \<Rightarrow> (tr @ [Delay 2000, Attempt Groq 1], Some (Inr v))
   | Inl m \<Rightarrow> (tr @ [Delay 2000, Attempt Groq 1],
        Some (Inl (Thrown (ascii ''All AI providers failed. Last error: '' @ m)))))"
  by (subst groq_loop.simps) (simp split: sum.splits)

lemma groq_loop_0: "groq_loop w 0 tr =
  (case generateWithGroq w 0 of
     Inr v \<Rightarrow> (tr @ [Attempt Groq 0], Some (Inr v))
   | Inl m \<Rightarrow>
      (case generateWithGroq w 1 of
         Inr v \<Rightarrow> (tr @ [Attempt Groq 0, Delay 2000, Attempt Groq 1], Some (Inr v))
       | Inl m' \<Rightarrow> (tr @ [Attempt Groq 0, Delay 2000, Attempt Groq 1],
           Some (Inl (Thrown (ascii ''All AI providers failed. Last error: '' @ m'))))))"
  by (subst groq_loop.simps) (simp add: groq_loop_1 split: sum.splits)

lemmas run_simps = generateContent_def gemini_loop_0 groq_loop_0

lemmas sample_simps = all_down_def openai_up_def gemini_second_def prose_ad_def only_openai_def
  only_gemini_def no_clients_def sample_parse_def shoes_text_def shoes_def ascii_def

lemmas adapter_simps = generateWithOpenAI_def generateWithGemini_def generateWithGroq_def
  cleanJsonResponse_def strip_fence_def startsWith_def endsWith_def trim_def is_white_def

lemma gemini_second_run:
  "generateContent gemini_second only_gemini =
     ([Attempt Gemini 0, Delay 2000, Attempt Gemini 1], Inr (JObj []))"
  by (simp add: run_simps adapter_simps sample_simps)

lemma openai_up_run: "generateContent openai_up only_openai = ([Attempt OpenAI 0], Inr shoes)"
  by (simp add: run_simps adapter_simps sample_simps)

lemma no_adapter_fails_at_once:
  "configured c = [] \<Longrightarrow> generateContent w c = ([], Inl no_provider)"
  by (simp add: run_simps configured_def split: if_splits)

lemma exhaustion_with_groq_names_last_cause:
  assumes "groqClient c" and "isl (snd (generateContent w c))"
  shows "\<exists>m. generateWithGroq w 1 = Inl m
           \<and> snd (generateContent w c)
               = Inl (Thrown (ascii ''All AI providers failed. Last error: '' @ m))"
  using assms
  by (cases "openaiClient c"; cases "geminiClient c";
      auto simp add: run_simps split: sum.splits)

lemma exhaustion_without_groq:
  assumes "\<not> groqClient c" and "isl (snd (generateContent w c))"
  shows "snd (generateContent w c) = Inl no_provider"
  using assms by (auto simp add: run_simps split: sum.splits if_splits)

text \<open>
  C1. With no adapter configured, the orchestrator fails at once with the "not configured"
  error and attempts nothing (\<open>no_adapter_fails_at_once\<close>), and when Groq is configured an
  exhausted run fails with \<open>All AI providers failed\<close> and the message of Groq's last
  failure (\<open>exhaustion_with_groq_names_last_cause\<close>). Without Groq an exhausted run falls
  through to the final \<open>throw\<close> (\<open>exhaustion_without_groq\<close>): with OpenAI alone configured
  and timing out, the error is the same "not configured" error as with no adapter at all, and
  it does not name the cause.
\<close>

theorem exhaustion_reported_as_not_configured:
  "generateContent all_down only_openai = ([Attempt OpenAI 0], Inl no_provider)
   \<and> generateContent all_down no_clients = ([], Inl no_provider)
   \<and> no_provider \<noteq> Thrown (ascii ''All AI providers failed. Last error: '' @ ascii ''timeout'')"
  by (simp add: run_simps adapter_simps sample_simps no_provider_def)

lemma later_attempts:
  "p = Gemini \<or> p = Groq \<Longrightarrow> attempts_of p (fst (generateContent w c)) \<in> {[], [0], [0, 1]}"
  by (cases "openaiClient c"; cases "geminiClient c"; cases "groqClient c";
      elim disjE; simp add: run_simps attempts_of_def split: sum.splits)

lemma no_delay_before_first:
  "\<forall>(prev, e) \<in> set (preceded (fst (generateContent w c))).
      e = Attempt p 0 \<longrightarrow> (\<forall>d. prev \<noteq> Some (Delay d))"
  by (cases "openaiClient c"; cases "geminiClient c"; cases "groqClient c";
      simp add: run_simps preceded_def split: sum.splits)

lemma delay_before_second:
  "p = Gemini \<or> p = Groq \<Longrightarrow>
   \<forall>(prev, e) \<in> set (preceded (fst (generateContent w c))).
      e = Attempt p 1 \<longrightarrow> prev = Some (Delay 2000)"
  by (cases "openaiClient c"; cases "geminiClient c"; cases "groqClient c";
      auto simp add: run_simps preceded_def split: sum.splits)

lemma delay_only_before_second:
  "\<forall>(prev, e) \<in> set (preceded (fst (generateContent w c))).
      \<forall>d. prev = Some (Delay d) \<longrightarrow> d = 2000 \<and> (e = Attempt Gemini 1 \<or> e = Attempt Groq 1)"
  by (cases "openaiClient c"; cases "geminiClient c"; cases "groqClient c";
      simp add: run_simps preceded_def split: sum.splits)

lemma no_trailing_delay:
  "\<forall>d. fst (generateContent w c) \<noteq> [] \<longrightarrow> last (fst (generateContent w c)) \<noteq> Delay d"
  by (cases "openaiClient c"; cases "geminiClient c"; cases "groqClient c";
      simp add: run_simps split: sum.splits)

lemma earlier_attempts_failed:
  "\<forall>e \<in> set (butlast (fst (generateContent w c))).
      \<forall>q a. e = Attempt q a \<longrightarrow> isl (attempt_outcome w q a)"
  by (cases "openaiClient c"; cases "geminiClient c"; cases "groqClient c";
      auto simp add: run_simps split: sum.splits)

lemma success_is_returned:
  "\<forall>q a v. fst (generateContent w c) \<noteq> [] \<and> last (fst (generateContent w c)) = Attempt q a
      \<and> attempt_outcome w q a = Inr v \<longrightarrow> snd (generateContent w c) = Inr v"
  by (cases "openaiClient c"; cases "geminiClient c"; cases "groqClient c";
      auto simp add: run_simps split: sum.splits)

lemma gemini_is_reached:
  "attempts_of Gemini (fst (generateContent w c)) =
     (if geminiClient c \<and> (openaiClient c \<longrightarrow> isl (generateWithOpenAI w))
      then (if isl (generateWithGemini w 0) then [0, 1] else [0])
      else [])"
  by (cases "openaiClient c"; cases "geminiClient c"; cases "groqClient c";
      simp add: run_simps attempts_of_def split: sum.splits)

lemma groq_is_reached:
  "attempts_of Groq (fst (generateContent w c)) =
     (if groqClient c \<and> (openaiClient c \<longrightarrow> isl (generateWithOpenAI w))
         \<and> (geminiClient c \<longrightarrow> isl (generateWithGemini w 0) \<and> isl (generateWithGemini w 1))
      then (if isl (generateWithGroq w 0) then [0, 1] else [0])
      else [])"
  by (cases "openaiClient c"; cases "geminiClient c"; cases "groqClient c";
      simp add: run_simps attempts_of_def split: sum.splits)

lemma gemini_second_attempt_returns:
  "\<forall>v. geminiClient c \<and> (openaiClient c \<longrightarrow> isl (generateWithOpenAI w))
        \<and> isl (generateWithGemini w 0) \<and> generateWithGemini w 1 = Inr v \<longrightarrow>
      generateContent w c =
        ((if openaiClient c then [Attempt OpenAI 0] else [])
           @ [Attempt Gemini 0, Delay 2000, Attempt Gemini 1], Inr v)"
  by (cases "openaiClient c"; cases "geminiClient c"; cases "groqClient c";
      auto simp add: run_simps split: sum.splits)

lemma groq_second_attempt_returns:
  "\<forall>v. groqClient c \<and> (openaiClient c \<longrightarrow> isl (generateWithOpenAI w))
        \<and> (geminiClient c \<longrightarrow> isl (generateWithGemini w 0) \<and> isl (generateWithGemini w 1))
        \<and> isl (generateWithGroq w 0) \<and> generateWithGroq w 1 = Inr v \<longrightarrow>
      generateContent w c =
        ((if openaiClient c then [Attempt OpenAI 0] else [])
           @ (if geminiClient c then [Attempt Gemini 0, Delay 2000, Attempt Gemini 1] else [])
           @ [Attempt Groq 0, Delay 2000, Attempt Groq 1], Inr v)"
  by (cases "openaiClient c"; cases "geminiClient c"; cases "groqClient c";
      auto simp add: run_simps split: sum.splits)

lemma all_down_full_run:
  "generateContent all_down all_clients =
     ([Attempt OpenAI 0, Attempt Gemini 0, Delay 2000, Attempt Gemini 1,
       Attempt Groq 0, Delay 2000, Attempt Groq 1],
      Inl (Thrown (ascii ''All AI providers failed. Last error: timeout'')))"
  by (simp add: run_simps adapter_simps all_down_def all_clients_def ascii_def)

text \<open>
  C3. In every run, whatever OpenAI did and whichever clients exist, Gemini and Groq are each
  attempted at most twice, with attempt indices 0 and then 1; no wait comes just before a
  first attempt, a wait of 2000 ms comes just before every second attempt, every wait of a
  run is such a wait (2000 ms, followed by a second attempt, never the last event); every
  attempt that is not the last event of the run failed, and a last attempt that succeeded
  gives the orchestrator's result, so nothing is invoked after a success.
  The later adapters are really tried: Gemini, when configured, is attempted exactly when
  OpenAI is unavailable or its attempt failed, and Groq, when configured, exactly when
  moreover Gemini is unavailable or both its attempts failed; an adapter that is reached is
  attempted once when its first attempt succeeds and twice when it fails; and when a second
  attempt succeeds the run is the earlier failed attempts, the first attempt, one wait of
  2000 ms and the second attempt, and its result is the value of that second attempt.
\<close>

theorem later_adapters_two_attempts_one_delay:
  assumes "p = Gemini \<or> p = Groq"
  shows "attempts_of p (fst (generateContent w c)) \<in> {[], [0], [0, 1]}
    \<and> (\<forall>(prev, e) \<in> set (preceded (fst (generateContent w c))).
          (e = Attempt p 0 \<longrightarrow> (\<forall>d. prev \<noteq> Some (Delay d)))
        \<and> (e = Attempt p 1 \<longrightarrow> prev = Some (Delay 2000))
        \<and> (\<forall>d. prev = Some (Delay d) \<longrightarrow> d = 2000 \<and> (e = Attempt Gemini 1 \<or> e = Attempt Groq 1)))
    \<and> (\<forall>d. fst (generateContent w c) \<noteq> [] \<longrightarrow> last (fst (generateContent w c)) \<noteq> Delay d)
    \<and> (\<forall>e \<in> set (butlast (fst (generateContent w c))).
          \<forall>q a. e = Attempt q a \<longrightarrow> isl (attempt_outcome w q a))
    \<and> (\<forall>q a v. fst (generateContent w c) \<noteq> [] \<and> last (fst (generateContent w c)) = Attempt q a
          \<and> attempt_outcome w q a = Inr v \<longrightarrow> snd (generateContent w c) = Inr v)
    \<and> attempts_of Gemini (fst (generateContent w c)) =
         (if geminiClient c \<and> (openaiClient c \<longrightarrow> isl (generateWithOpenAI w))
          then (if isl (generateWithGemini w 0) then [0, 1] else [0])
          else [])
    \<and> attempts_of Groq (fst (generateContent w c)) =
         (if groqClient c \<and> (openaiClient c \<longrightarrow> isl (generateWithOpenAI w))
             \<and> (geminiClient c \<longrightarrow> isl (generateWithGemini w 0) \<and> isl (generateWithGemini w 1))
          then (if isl (generateWithGroq w 0) then [0, 1] else [0])
          else [])
    \<and> (\<forall>v. geminiClient c \<and> (openaiClient c \<longrightarrow> isl (generateWithOpenAI w))
          \<and> isl (generateWithGemini w 0) \<and> generateWithGemini w 1 = Inr v \<longrightarrow>
        generateContent w c =
          ((if openaiClient c then [Attempt OpenAI 0] else [])
             @ [Attempt Gemini 0, Delay 2000, Attempt Gemini 1], Inr v))
    \<and> (\<forall>v. groqClient c \<and> (openaiClient c \<longrightarrow> isl (generateWithOpenAI w))
          \<and> (geminiClient c \<longrightarrow> isl (generateWithGemini w 0) \<and> isl (generateWithGemini w 1))
          \<and> isl (generateWithGroq w 0) \<and> generateWithGroq w 1 = Inr v \<longrightarrow>
        generateContent w c =
          ((if openaiClient c then [Attempt OpenAI 0] else [])
             @ (if geminiClient c then [Attempt Gemini 0, Delay 2000, Attempt Gemini 1] else [])
             @ [Attempt Groq 0, Delay 2000, Attempt Groq 1], Inr v))"
proof -
  from no_delay_before_first [of w c p] delay_before_second [OF assms, of w c]
    delay_only_before_second [of w c]
  have pairs: "\<forall>(prev, e) \<in> set (preceded (fst (generateContent w c))).
          (e = Attempt p 0 \<longrightarrow> (\<forall>d. prev \<noteq> Some (Delay d)))
        \<and> (e = Attempt p 1 \<longrightarrow> prev = Some (Delay 2000))
        \<and> (\<forall>d. prev = Some (Delay d) \<longrightarrow> d = 2000 \<and> (e = Attempt Gemini 1 \<or> e = Attempt Groq 1))"
    by blast
  from later_attempts [OF assms, of w c] pairs no_trailing_delay [of w c]
    earlier_attempts_failed [of w c] success_is_returned [of w c]
  have safety: "attempts_of p (fst (generateContent w c)) \<in> {[], [0], [0, 1]}
    \<and> (\<forall>(prev, e) \<in> set (preceded (fst (generateContent w c))).
          (e = Attempt p 0 \<longrightarrow> (\<forall>d. prev \<noteq> Some (Delay d)))
        \<and> (e = Attempt p 1 \<longrightarrow> prev = Some (Delay 2000))
        \<and> (\<forall>d. prev = Some (Delay d) \<longrightarrow> d = 2000 \<and> (e = Attempt Gemini 1 \<or> e = Attempt Groq 1)))
    \<and> (\<forall>d. fst (generateContent w c) \<noteq> [] \<longrightarrow> last (fst (generateContent w c)) \<noteq> Delay d)
    \<and> (\<forall>e \<in> set (butlast (fst (generateContent w c))).
          \<forall>q a. e = Attempt q a \<longrightarrow> isl (attempt_outcome w q a))
    \<and> (\<forall>q a v. fst (generateContent w c) \<noteq> [] \<and> last (fst (generateContent w c)) = Attempt q a
          \<and> attempt_outcome w q a = Inr v \<longrightarrow> snd (generateContent w c) = Inr v)"
    by blast
  show ?thesis
    by (intro conjI safety [THEN conjunct1] safety [THEN conjunct2, THEN conjunct1]
        safety [THEN conjunct2, THEN conjunct2, THEN conjunct1]
        safety [THEN conjunct2, THEN conjunct2, THEN conjunct2, THEN conjunct1]
        safety [THEN conjunct2, THEN conjunct2, THEN conjunct2, THEN conjunct2]
        gemini_is_reached groq_is_reached gemini_second_attempt_returns
        groq_second_attempt_returns)
qed

text \<open>
  Gemini alone, failing once and succeeding on the second attempt; and all three adapters
  with every call timing out, where Groq is reached and attempted twice.
\<close>

theorem later_adapters_two_attempts_one_delay_witness:
  "(Gemini = Gemini \<or> Gemini = Groq)
   \<and> fst (generateContent gemini_second only_gemini) = [Attempt Gemini 0, Delay 2000, Attempt Gemini 1]
   \<and> attempts_of Gemini (fst (generateContent gemini_second only_gemini)) = [0, 1]
   \<and> (Some (Delay 2000), Attempt Gemini 1) \<in> set (preceded (fst (generateContent gemini_second only_gemini)))
   \<and> Attempt Gemini 0 \<in> set (butlast (fst (generateContent gemini_second only_gemini)))
   \<and> isl (attempt_outcome gemini_second Gemini 0)
   \<and> last (fst (generateContent gemini_second only_gemini)) = Attempt Gemini 1
   \<and> attempt_outcome gemini_second Gemini 1 = Inr (JObj [])
   \<and> geminiClient only_gemini \<and> \<not> openaiClient only_gemini
   \<and> isl (generateWithGemini gemini_second 0)
   \<and> generateWithGemini gemini_second 1 = Inr (JObj [])
   \<and> generateContent gemini_second only_gemini
       = ([Attempt Gemini 0, Delay 2000, Attempt Gemini 1], Inr (JObj []))
   \<and> groqClient all_clients \<and> isl (generateWithOpenAI all_down)
   \<and> isl (generateWithGemini all_down 0) \<and> isl (generateWithGemini all_down 1)
   \<and> isl (generateWithGroq all_down 0)
   \<and> attempts_of Groq (fst (generateContent all_down all_clients)) = [0, 1]"
proof -
  have p: "Gemini = Gemini \<or> Gemini = Groq" by simp
  have g0: "isl (generateWithGemini gemini_second 0)"
    and g1: "generateWithGemini gemini_second 1 = Inr (JObj [])"
    by (simp_all add: adapter_simps sample_simps)
  have cl: "geminiClient only_gemini \<and> \<not> openaiClient only_gemini \<and> groqClient all_clients
      \<and> geminiClient all_clients \<and> openaiClient all_clients"
    by (simp add: only_gemini_def all_clients_def)
  have down: "isl (generateWithOpenAI all_down) \<and> isl (generateWithGemini all_down 0)
      \<and> isl (generateWithGemini all_down 1) \<and> isl (generateWithGroq all_down 0)"
    by (simp add: generateWithOpenAI_def generateWithGemini_def generateWithGroq_def all_down_def)
  note second = later_adapters_two_attempts_one_delay [OF p, of gemini_second only_gemini]
  note full = later_adapters_two_attempts_one_delay [OF p, of all_down all_clients]
  from second cl g0 g1 have run: "generateContent gemini_second only_gemini
       = ([Attempt Gemini 0, Delay 2000, Attempt Gemini 1], Inr (JObj []))"
    by simp
  from second cl g0 have twice: "attempts_of Gemini (fst (generateContent gemini_second only_gemini)) = [0, 1]"
    by simp
  from full cl down have groq: "attempts_of Groq (fst (generateContent all_down all_clients)) = [0, 1]"
    by simp
  from run twice groq cl g0 g1 down show ?thesis
    by (simp add: preceded_def)
qed

text \<open>
  C4, as stated, fails: with Gemini as the first configured adapter (no OpenAI client), a
  failure of its first attempt is followed by a second attempt.
\<close>

theorem first_configured_adapter_retried:
  "hd (configured only_gemini) = Gemini
   \<and> attempts_of (hd (configured only_gemini)) (fst (generateContent gemini_second only_gemini)) = [0, 1]"
proof -
  have "configured only_gemini = [Gemini]"
    by (simp add: configured_def only_gemini_def)
  then show ?thesis
    by (simp add: gemini_second_run attempts_of_def)
qed

text \<open>
  C4, amended. The adapters are called in the fixed order OpenAI, Gemini, Groq, the
  unconfigured ones left out and none called again after a later one; OpenAI, when
  configured, is attempted exactly once; and when that attempt succeeds it is the only event
  of the run and its value is the result. Gemini and Groq have up to two attempts each, also
  when they come first.
\<close>

theorem openai_once_and_priority_order:
  "prefix (remdups_adj (called (fst (generateContent w c)))) (configured c)
   \<and> attempts_of OpenAI (fst (generateContent w c)) = (if openaiClient c then [0] else [])
   \<and> (\<forall>v. openaiClient c \<and> generateWithOpenAI w = Inr v
          \<longrightarrow> generateContent w c = ([Attempt OpenAI 0], Inr v))
   \<and> attempts_of Gemini (fst (generateContent w c)) \<in> {[], [0], [0, 1]}
   \<and> attempts_of Groq (fst (generateContent w c)) \<in> {[], [0], [0, 1]}"
proof -
  have twice: "attempts_of Gemini (fst (generateContent w c)) \<in> {[], [0], [0, 1]}
      \<and> attempts_of Groq (fst (generateContent w c)) \<in> {[], [0], [0, 1]}"
    using later_attempts [of Gemini w c] later_attempts [of Groq w c] by simp
  have order: "prefix (remdups_adj (called (fst (generateContent w c)))) (configured c)"
    by (cases "openaiClient c"; cases "geminiClient c"; cases "groqClient c";
        simp add: run_simps called_def configured_def split: sum.splits)
  have once: "attempts_of OpenAI (fst (generateContent w c)) = (if openaiClient c then [0] else [])"
    by (cases "openaiClient c"; cases "geminiClient c"; cases "groqClient c";
        simp add: run_simps attempts_of_def split: sum.splits)
  have stop: "\<forall>v. openaiClient c \<and> generateWithOpenAI w = Inr v
      \<longrightarrow> generateContent w c = ([Attempt OpenAI 0], Inr v)"
    by (simp add: run_simps)
  from order once stop twice show ?thesis by blast
qed

text \<open>OpenAI alone, answering the running-shoes request.\<close>

theorem openai_once_and_priority_order_witness:
  "openaiClient only_openai \<and> generateWithOpenAI openai_up = Inr shoes
   \<and> generateContent openai_up only_openai = ([Attempt OpenAI 0], Inr shoes)
   \<and> attempts_of OpenAI (fst (generateContent openai_up only_openai)) = [0]"
proof -
  have h: "openaiClient only_openai \<and> generateWithOpenAI openai_up = Inr shoes"
    by (simp add: adapter_simps sample_simps)
  from openai_once_and_priority_order [of openai_up only_openai] h
  show ?thesis by (simp add: attempts_of_def)
qed


subsection \<open>Fence stripping\<close>

lemma trim_leading: "is_white ch \<Longrightarrow> trim (ch # s) = trim s"
  by (simp add: trim_def)

lemma trim_trailing:
  assumes "is_white ch"
  shows "trim (s @ [ch]) = trim s"
proof (cases "\<forall>x \<in> set s. is_white x")
  case True
  then have a: "dropWhile is_white s = []"
    by (simp add: dropWhile_eq_Nil_conv)
  from True assms have b: "dropWhile is_white (s @ [ch]) = []"
    by (simp add: dropWhile_eq_Nil_conv)
  show ?thesis
    unfolding trim_def a b by simp
next
  case False
  then have "dropWhile is_white (s @ [ch]) = dropWhile is_white s @ [ch]"
    by (auto simp add: dropWhile_append1)
  with assms show ?thesis by (simp add: trim_def)
qed

lemma startsWith_longer:
  assumes "startsWith t (p @ q)"
  shows "startsWith t p"
proof -
  have "take (length p) t = take (length p) (take (length (p @ q)) t)"
    by (simp add: min_def)
  also have "\<dots> = take (length p) (p @ q)"
    using assms by (simp add: startsWith_def)
  finally show ?thesis
    by (simp add: startsWith_def)
qed

lemma strip_fence_bare:
  assumes "\<not> startsWith t (ascii ''```'')" and "\<not> endsWith t (ascii ''```'')"
  shows "strip_fence t = t"
proof -
  have "ascii ''```json'' = ascii ''```'' @ ascii ''json''"
    by (simp add: ascii_def)
  with assms(1) have "\<not> startsWith t (ascii ''```json'')"
    using startsWith_longer [of t "ascii ''```''" "ascii ''json''"] by auto
  with assms show ?thesis
    by (simp add: strip_fence_def)
qed

lemma strip_fence_fenced:
  "strip_fence (ascii ''```json'' @ [0xA] @ t @ [0xA] @ ascii ''```'') = [0xA] @ t @ [0xA]"
proof -
  have a: "startsWith (ascii ''```json'' @ [0xA] @ t @ [0xA] @ ascii ''```'') (ascii ''```json'')"
    by (simp add: startsWith_def ascii_def)
  have b: "drop 7 (ascii ''```json'' @ [0xA] @ t @ [0xA] @ ascii ''```'') = [0xA] @ t @ [0xA] @ ascii ''```''"
    by (simp add: ascii_def)
  have c: "\<not> startsWith ([0xA] @ t @ [0xA] @ ascii ''```'') (ascii ''```'')"
    by (simp add: startsWith_def ascii_def)
  have d: "endsWith ([0xA] @ t @ [0xA] @ ascii ''```'') (ascii ''```'')"
    by (simp add: endsWith_def ascii_def)
  have e: "take (length ([0xA] @ t @ [0xA] @ ascii ''```'') - 3) ([0xA] @ t @ [0xA] @ ascii ''```'')
             = [0xA] @ t @ [0xA]"
    by (simp add: ascii_def)
  show ?thesis
    unfolding strip_fence_def Let_def using a b c d e by (simp only: if_True if_False)
qed

text \<open>
  C8. For a body \<open>t\<close> that neither starts nor ends with three backticks, as every JSON text
  does, \<open>_cleanJsonResponse\<close> gives the same outcome (the same parsed value or the same
  parse error) on \<open>t\<close> inside a \<open>json\<close> fence and on \<open>t\<close> itself, whatever the parser.
\<close>

theorem fenced_and_bare_parse_alike:
  assumes "\<not> startsWith t (ascii ''```'')" and "\<not> endsWith t (ascii ''```'')"
  shows "cleanJsonResponse w (ascii ''```json'' @ [0xA] @ t @ [0xA] @ ascii ''```'')
           = cleanJsonResponse w t"
proof -
  have nl: "is_white 0xA"
    by (simp add: is_white_def)
  have "trim ([0xA] @ t @ [0xA]) = trim (t @ [0xA])"
    using trim_leading [OF nl] by simp
  also have "\<dots> = trim t"
    by (rule trim_trailing [OF nl])
  finally show ?thesis
    by (simp only: cleanJsonResponse_def strip_fence_fenced strip_fence_bare [OF assms])
qed

text \<open>The empty object, fenced and bare.\<close>

theorem fenced_and_bare_parse_alike_witness:
  "\<not> startsWith (ascii ''{}'') (ascii ''```'') \<and> \<not> endsWith (ascii ''{}'') (ascii ''```'')
   \<and> cleanJsonResponse all_down (ascii ''```json'' @ [0xA] @ ascii ''{}'' @ [0xA] @ ascii ''```'')
        = Inr (JObj [])
   \<and> cleanJsonResponse all_down (ascii ''{}'') = Inr (JObj [])"
proof -
  have h1: "\<not> startsWith (ascii ''{}'') (ascii ''```'')"
    by (simp add: startsWith_def ascii_def)
  have h2: "\<not> endsWith (ascii ''{}'') (ascii ''```'')"
    by (simp add: endsWith_def ascii_def)
  have bare: "cleanJsonResponse all_down (ascii ''{}'') = Inr (JObj [])"
    by (simp add: adapter_simps sample_simps)
  from fenced_and_bare_parse_alike [OF h1 h2, of all_down] h1 h2 bare
  show ?thesis by simp
qed

subsection \<open>The post-processor\<close>

lemma length_split_on: "length (split_on c s) = Suc (count_list s c)"
  by (induction s) (auto split: list.splits)

lemma text_post_result:
  "snd (generateTextPost w c request) = and_then (snd (generateContent w c)) (textPostResponse w request)"
  by (simp add: generateTextPost_def split: prod.splits)

lemma image_post_result:
  "snd (generateImagePost w c request) = and_then (snd (generateContent w c)) (imagePostResponse request)"
  by (simp add: generateImagePost_def split: prod.splits)

lemma video_script_result:
  "snd (generateVideoScript w c request) = and_then (snd (generateContent w c)) (videoScriptResponse request)"
  by (simp add: generateVideoScript_def split: prod.splits)

lemma and_then_Inr: "and_then r f = Inr y \<Longrightarrow> \<exists>x. r = Inr x \<and> f x = Inr y"
  by (cases r) (simp_all add: and_then_def)

text \<open>What a successful text post looks like.\<close>

lemma textPostResponse_Inr:
  assumes "textPostResponse w request result = Inr r"
  obtains h a where "js_get result (ascii ''hashtags'') = Inr h"
    and "js_get result (ascii ''cta'') = Inr a"
    and "r = \<lparr>success = True,
              hashtags = (if includeHashtags request then or_default h (JArr []) else JArr []),
              cta = (if includeCTA request then or_default a (JStr []) else JStr []),
              stats = stats_of (caption r) (length (split_on 0x20 (caption r)))
                (if js_ge w (optional_length h) 5 then ascii ''High'' else ascii ''Medium''),
              creditsUsed = 1, creditsRemaining = 149, caption = caption r\<rparr>"
  using assms
  by (auto simp add: textPostResponse_def and_then_def Let_def split: sum.splits json.splits)

lemma imagePostResponse_Inr:
  assumes "imagePostResponse request result = Inr r"
  obtains h a i where "js_get result (ascii ''hashtags'') = Inr h"
    and "js_get result (ascii ''cta'') = Inr a"
    and "r = \<lparr>success = True, hashtags = or_default h (JArr []), cta = or_default a (JStr []),
              stats = stats_of (caption r) (length (split_on 0x20 (caption r))) (ascii ''High''),
              creditsUsed = 2, creditsRemaining = 23, caption = caption r,
              imagePrompt = or_default i (JStr [])\<rparr>"
  using assms
  by (auto simp add: imagePostResponse_def and_then_def Let_def split: sum.splits json.splits)

lemma videoScriptResponse_Inr:
  assumes "videoScriptResponse request result = Inr r"
  obtains h a k where "js_get result (ascii ''hashtags'') = Inr h"
    and "js_get result (ascii ''cta'') = Inr a"
    and "r = \<lparr>success = True, hashtags = or_default h (JArr []), cta = or_default a (JStr []),
              stats = stats_of (script r) (length (split_on 0x20 (script r))) (ascii ''High''),
              creditsUsed = 3, creditsRemaining = 7, hook = or_default k (JStr []),
              script = script r\<rparr>"
  using assms
  by (auto simp add: videoScriptResponse_def and_then_def Let_def split: sum.splits json.splits)


lemma text_post_toggles:
  assumes "snd (generateContent w c) = Inr result"
    and "snd (generateTextPost w c request) = Inr r"
  shows "(\<not> includeHashtags request \<longrightarrow> hashtags r = JArr [])
    \<and> (\<not> includeCTA request \<longrightarrow> cta r = JStr [])
    \<and> (\<forall>h. includeHashtags request \<and> js_get result (ascii ''hashtags'') = Inr (Some h) \<and> truthy h
           \<longrightarrow> hashtags r = h)"
proof -
  from assms have "textPostResponse w request result = Inr r"
    by (simp add: text_post_result and_then_def)
  then show ?thesis
    by (elim textPostResponse_Inr) (cases r, auto)
qed

lemma image_post_reads_no_toggle: "imagePostResponse request result = imagePostResponse request' result"
  by (simp add: imagePostResponse_def)

text \<open>
  C5. The text post honours the two toggles (\<open>text_post_toggles\<close>). The image post, whose
  request carries the same toggles, never reads them (\<open>image_post_reads_no_toggle\<close>): with
  \<open>includeHashtags\<close> and \<open>includeCTA\<close> both false it still answers the five hashtags and
  the call to action that the provider returned.
\<close>

theorem image_post_ignores_toggles:
  "(case snd (generateImagePost openai_up only_openai
               (shoes_request\<lparr>includeHashtags := False, includeCTA := False\<rparr>)) of
      Inr r \<Rightarrow>
        hashtags r = JArr [JStr (ascii ''#run''), JStr (ascii ''#shoes''), JStr (ascii ''#fitness''),
                           JStr (ascii ''#gear''), JStr (ascii ''#new'')]
        \<and> cta r = JStr (ascii ''Shop now!'')
    | Inl e \<Rightarrow> False)"
  by (simp add: image_post_result openai_up_run and_then_def imagePostResponse_def Let_def
      shoes_def shoes_request_def ascii_def)

text \<open>
  C6, as stated, fails: for a provider result without any hashtags, the image post and the
  video script still report the engagement score "High".
\<close>

theorem score_high_without_hashtags:
  "snd (generateContent gemini_second only_gemini) = Inr (JObj [])
   \<and> js_get (JObj []) (ascii ''hashtags'') = Inr None
   \<and> (case snd (generateImagePost gemini_second only_gemini shoes_request) of
        Inr r \<Rightarrow> engagementScore (stats r) = ascii ''High'' | Inl e \<Rightarrow> False)
   \<and> (case snd (generateVideoScript gemini_second only_gemini shoes_video) of
        Inr r \<Rightarrow> engagementScore (stats r) = ascii ''High'' | Inl e \<Rightarrow> False)"
  by (simp add: image_post_result video_script_result gemini_second_run and_then_def
      imagePostResponse_def videoScriptResponse_def Let_def stats_of_def)

text \<open>
  C6, amended. For a text post the engagement score is "High" exactly when the hashtags array
  the provider returned has at least 5 elements and "Medium" otherwise, whatever
  \<open>includeHashtags\<close> says, and it is "Medium" when the provider returned no hashtags; for an
  image post and for a video script the score is always "High".
\<close>

theorem engagement_score_by_kind:
  "(\<forall>result r hs. snd (generateContent w c) = Inr result
        \<and> snd (generateTextPost w c request) = Inr r
        \<and> js_get result (ascii ''hashtags'') = Inr (Some (JArr hs))
      \<longrightarrow> engagementScore (stats r) = (if 5 \<le> length hs then ascii ''High'' else ascii ''Medium''))
   \<and> (\<forall>result r. snd (generateContent w c) = Inr result
        \<and> snd (generateTextPost w c request) = Inr r
        \<and> js_get result (ascii ''hashtags'') = Inr None
      \<longrightarrow> engagementScore (stats r) = ascii ''Medium'')
   \<and> (\<forall>r. snd (generateImagePost w c request) = Inr r \<longrightarrow> engagementScore (stats r) = ascii ''High'')
   \<and> (\<forall>r. snd (generateVideoScript w c vrequest) = Inr r \<longrightarrow> engagementScore (stats r) = ascii ''High'')"
proof (intro conjI allI impI)
  fix result r hs
  assume a: "snd (generateContent w c) = Inr result
        \<and> snd (generateTextPost w c request) = Inr r
        \<and> js_get result (ascii ''hashtags'') = Inr (Some (JArr hs))"
  then have "textPostResponse w request result = Inr r"
    by (auto simp add: text_post_result and_then_def)
  then show "engagementScore (stats r) = (if 5 \<le> length hs then ascii ''High'' else ascii ''Medium'')"
    using a by (elim textPostResponse_Inr) (cases r, auto simp add: stats_of_def)
next
  fix result r
  assume a: "snd (generateContent w c) = Inr result
        \<and> snd (generateTextPost w c request) = Inr r
        \<and> js_get result (ascii ''hashtags'') = Inr None"
  then have "textPostResponse w request result = Inr r"
    by (auto simp add: text_post_result and_then_def)
  then show "engagementScore (stats r) = ascii ''Medium''"
    using a by (elim textPostResponse_Inr) (cases r, auto simp add: stats_of_def)
next
  fix r
  assume "snd (generateImagePost w c request) = Inr r"
  then obtain result where "imagePostResponse request result = Inr r"
    unfolding image_post_result by (blast dest: and_then_Inr)
  then show "engagementScore (stats r) = ascii ''High''"
    by (elim imagePostResponse_Inr) (cases r, auto simp add: stats_of_def)
next
  fix r
  assume "snd (generateVideoScript w c vrequest) = Inr r"
  then obtain result where "videoScriptResponse vrequest result = Inr r"
    unfolding video_script_result by (blast dest: and_then_Inr)
  then show "engagementScore (stats r) = ascii ''High''"
    by (elim videoScriptResponse_Inr) (cases r, auto simp add: stats_of_def)
qed


text \<open>
  The running-shoes answer carries five hashtags, the empty object none; both run through
  the text post, the image post and the video script.
\<close>

lemma shoes_text_post:
  "snd (generateTextPost openai_up only_openai shoes_request) =
     Inr \<lparr>success = True,
          hashtags = JArr [JStr (ascii ''#run''), JStr (ascii ''#shoes''), JStr (ascii ''#fitness''),
                           JStr (ascii ''#gear''), JStr (ascii ''#new'')],
          cta = JStr (ascii ''Shop now!''),
          stats = \<lparr>characters = 25, words = 4, readTime = ascii ''1 sec'',
                   engagementScore = ascii ''High''\<rparr>,
          creditsUsed = 1, creditsRemaining = 149,
          caption = ascii ''Run faster, feel lighter.''\<rparr>"
  by (simp add: text_post_result openai_up_run and_then_def textPostResponse_def Let_def
      stats_of_def show_nat.simps shoes_def shoes_request_def ascii_def)

lemma empty_text_post:
  "snd (generateTextPost gemini_second only_gemini shoes_request) =
     Inr \<lparr>success = True, hashtags = JArr [], cta = JStr [],
          stats = \<lparr>characters = 0, words = 1, readTime = ascii ''1 sec'',
                   engagementScore = ascii ''Medium''\<rparr>,
          creditsUsed = 1, creditsRemaining = 149, caption = []\<rparr>"
  by (simp add: text_post_result gemini_second_run and_then_def textPostResponse_def Let_def
      stats_of_def show_nat.simps shoes_request_def ascii_def)

lemma shoes_image_post:
  "snd (generateImagePost openai_up only_openai shoes_request) =
     Inr \<lparr>success = True,
          hashtags = JArr [JStr (ascii ''#run''), JStr (ascii ''#shoes''), JStr (ascii ''#fitness''),
                           JStr (ascii ''#gear''), JStr (ascii ''#new'')],
          cta = JStr (ascii ''Shop now!''),
          stats = \<lparr>characters = 25, words = 4, readTime = ascii ''1 sec'',
                   engagementScore = ascii ''High''\<rparr>,
          creditsUsed = 2, creditsRemaining = 23,
          caption = ascii ''Run faster, feel lighter.'', imagePrompt = JStr []\<rparr>"
  by (simp add: image_post_result openai_up_run and_then_def imagePostResponse_def Let_def
      stats_of_def show_nat.simps shoes_def ascii_def)

lemma shoes_video_script:
  "snd (generateVideoScript openai_up only_openai shoes_video) =
     Inr \<lparr>success = True,
          hashtags = JArr [JStr (ascii ''#run''), JStr (ascii ''#shoes''), JStr (ascii ''#fitness''),
                           JStr (ascii ''#gear''), JStr (ascii ''#new'')],
          cta = JStr (ascii ''Shop now!''),
          stats = \<lparr>characters = 0, words = 1, readTime = ascii ''1 sec'',
                   engagementScore = ascii ''High''\<rparr>,
          creditsUsed = 3, creditsRemaining = 7, hook = JStr [], script = []\<rparr>"
  by (simp add: video_script_result openai_up_run and_then_def videoScriptResponse_def Let_def
      stats_of_def show_nat.simps shoes_def ascii_def)

theorem engagement_score_by_kind_witness:
  "snd (generateContent openai_up only_openai) = Inr shoes
   \<and> js_get shoes (ascii ''hashtags'')
       = Inr (Some (JArr [JStr (ascii ''#run''), JStr (ascii ''#shoes''), JStr (ascii ''#fitness''),
                          JStr (ascii ''#gear''), JStr (ascii ''#new'')]))
   \<and> (\<exists>r. snd (generateTextPost openai_up only_openai shoes_request) = Inr r
         \<and> engagementScore (stats r) = ascii ''High'')
   \<and> snd (generateContent gemini_second only_gemini) = Inr (JObj [])
   \<and> js_get (JObj []) (ascii ''hashtags'') = Inr None
   \<and> (\<exists>r. snd (generateTextPost gemini_second only_gemini shoes_request) = Inr r
         \<and> engagementScore (stats r) = ascii ''Medium'')
   \<and> (\<exists>r. snd (generateImagePost openai_up only_openai shoes_request) = Inr r
         \<and> engagementScore (stats r) = ascii ''High'')
   \<and> (\<exists>r. snd (generateVideoScript openai_up only_openai shoes_video) = Inr r
         \<and> engagementScore (stats r) = ascii ''High'')"
proof -
  have five: "js_get shoes (ascii ''hashtags'')
       = Inr (Some (JArr [JStr (ascii ''#run''), JStr (ascii ''#shoes''), JStr (ascii ''#fitness''),
                          JStr (ascii ''#gear''), JStr (ascii ''#new'')]))"
    by (simp add: shoes_def ascii_def)
  have none: "js_get (JObj []) (ascii ''hashtags'') = Inr None"
    by simp
  note up = engagement_score_by_kind [of openai_up only_openai shoes_request shoes_video]
  note down = engagement_score_by_kind [of gemini_second only_gemini shoes_request shoes_video]
  from up five have "\<exists>r. snd (generateTextPost openai_up only_openai shoes_request) = Inr r
         \<and> engagementScore (stats r) = ascii ''High''"
    by (simp add: openai_up_run shoes_text_post)
  moreover from down none have "\<exists>r. snd (generateTextPost gemini_second only_gemini shoes_request) = Inr r
         \<and> engagementScore (stats r) = ascii ''Medium''"
    by (simp add: gemini_second_run empty_text_post)
  moreover from up have "\<exists>r. snd (generateImagePost openai_up only_openai shoes_request) = Inr r
         \<and> engagementScore (stats r) = ascii ''High''"
    by (simp add: shoes_image_post)
  moreover from up have "\<exists>r. snd (generateVideoScript openai_up only_openai shoes_video) = Inr r
         \<and> engagementScore (stats r) = ascii ''High''"
    by (simp add: shoes_video_script)
  ultimately show ?thesis
    using five none by (simp add: openai_up_run gemini_second_run)
qed

text \<open>
  C7, as stated, fails on the word count: \<open>split(' ')\<close> cuts at single spaces only and keeps
  empty pieces. An empty caption has no token and one word; a caption of four tokens with a
  line break between two of them has three words.
\<close>

theorem word_count_is_not_token_count:
  "(case snd (generateTextPost gemini_second only_gemini shoes_request) of
      Inr r \<Rightarrow> caption r = [] \<and> words (stats r) = 1 \<and> length (whitespace_tokens (caption r)) = 0
    | Inl e \<Rightarrow> False)
   \<and> (case textPostResponse all_down shoes_request
              (JObj [(ascii ''caption'', JStr (ascii ''Run faster.'' @ [0xA] @ ascii ''Feel lighter.''))]) of
        Inr r \<Rightarrow> words (stats r) = 3 \<and> length (whitespace_tokens (caption r)) = 4
      | Inl e \<Rightarrow> False)"
  by (simp add: empty_text_post whitespace_tokens_def textPostResponse_def and_then_def Let_def
      stats_of_def is_white_def ascii_def)

text \<open>
  C7, amended. For the caption of a text or image post and the script of a video script:
  the character count is the length of the field in UTF-16 code units; the word count is
  the number of pieces the field falls into when cut at every space character U+0020, one
  more than the number of its spaces; the read time is the decimal rendering of
  \<open>max 1 (words div 3)\<close> followed by \<open>" sec"\<close>. Two text posts with the same caption have
  the same three figures, whatever the request, the provider and the run.
\<close>

theorem stats_of_primary_text:
  "(\<forall>r. snd (generateTextPost w c request) = Inr r \<longrightarrow>
        characters (stats r) = length (caption r)
      \<and> words (stats r) = Suc (count_list (caption r) 0x20)
      \<and> readTime (stats r) = show_nat (max 1 (words (stats r) div 3)) @ ascii '' sec'')
   \<and> (\<forall>r. snd (generateImagePost w c request) = Inr r \<longrightarrow>
        characters (stats r) = length (caption r)
      \<and> words (stats r) = Suc (count_list (caption r) 0x20)
      \<and> readTime (stats r) = show_nat (max 1 (words (stats r) div 3)) @ ascii '' sec'')
   \<and> (\<forall>r. snd (generateVideoScript w c vrequest) = Inr r \<longrightarrow>
        characters (stats r) = length (script r)
      \<and> words (stats r) = Suc (count_list (script r) 0x20)
      \<and> readTime (stats r) = show_nat (max 1 (words (stats r) div 3)) @ ascii '' sec'')
   \<and> (\<forall>r r'. snd (generateTextPost w c request) = Inr r
        \<and> snd (generateTextPost w' c' request') = Inr r' \<and> caption r = caption r' \<longrightarrow>
        characters (stats r) = characters (stats r') \<and> words (stats r) = words (stats r')
      \<and> readTime (stats r) = readTime (stats r'))"
proof -
  have text_stats: "characters (stats r) = length (caption r)
      \<and> words (stats r) = Suc (count_list (caption r) 0x20)
      \<and> readTime (stats r) = show_nat (max 1 (words (stats r) div 3)) @ ascii '' sec''"
    if "snd (generateTextPost v d q) = Inr r" for v d q r
  proof -
    from that obtain result where "textPostResponse v q result = Inr r"
      unfolding text_post_result by (blast dest: and_then_Inr)
    then show ?thesis
      by (elim textPostResponse_Inr) (cases r, auto simp add: stats_of_def length_split_on)
  qed
  have image_stats: "characters (stats r) = length (caption r)
      \<and> words (stats r) = Suc (count_list (caption r) 0x20)
      \<and> readTime (stats r) = show_nat (max 1 (words (stats r) div 3)) @ ascii '' sec''"
    if "snd (generateImagePost w c request) = Inr r" for r
  proof -
    from that obtain result where "imagePostResponse request result = Inr r"
      unfolding image_post_result by (blast dest: and_then_Inr)
    then show ?thesis
      by (elim imagePostResponse_Inr) (cases r, auto simp add: stats_of_def length_split_on)
  qed
  have video_stats: "characters (stats r) = length (script r)
      \<and> words (stats r) = Suc (count_list (script r) 0x20)
      \<and> readTime (stats r) = show_nat (max 1 (words (stats r) div 3)) @ ascii '' sec''"
    if "snd (generateVideoScript w c vrequest) = Inr r" for r
  proof -
    from that obtain result where "videoScriptResponse vrequest result = Inr r"
      unfolding video_script_result by (blast dest: and_then_Inr)
    then show ?thesis
      by (elim videoScriptResponse_Inr) (cases r, auto simp add: stats_of_def length_split_on)
  qed
  have same: "characters (stats r) = characters (stats r') \<and> words (stats r) = words (stats r')
      \<and> readTime (stats r) = readTime (stats r')"
    if "snd (generateTextPost w c request) = Inr r"
      and "snd (generateTextPost w' c' request') = Inr r'" and "caption r = caption r'" for r r'
    using text_stats [OF that(1)] text_stats [OF that(2)] that(3) by simp
  from text_stats image_stats video_stats same show ?thesis
    by blast
qed

theorem stats_of_primary_text_witness:
  "(\<exists>r. snd (generateTextPost openai_up only_openai shoes_request) = Inr r
        \<and> caption r = ascii ''Run faster, feel lighter.''
        \<and> characters (stats r) = 25 \<and> words (stats r) = 4 \<and> readTime (stats r) = ascii ''1 sec'')
   \<and> (\<exists>r. snd (generateImagePost openai_up only_openai shoes_request) = Inr r
        \<and> characters (stats r) = 25 \<and> words (stats r) = 4 \<and> readTime (stats r) = ascii ''1 sec'')
   \<and> (\<exists>r. snd (generateVideoScript openai_up only_openai shoes_video) = Inr r
        \<and> characters (stats r) = 0 \<and> words (stats r) = 1 \<and> readTime (stats r) = ascii ''1 sec'')"
proof -
  note at = stats_of_primary_text [of openai_up only_openai shoes_request shoes_video
      openai_up only_openai shoes_request]
  from at have "\<exists>r. snd (generateTextPost openai_up only_openai shoes_request) = Inr r
        \<and> caption r = ascii ''Run faster, feel lighter.''
        \<and> characters (stats r) = 25 \<and> words (stats r) = 4 \<and> readTime (stats r) = ascii ''1 sec''"
    by (simp add: shoes_text_post)
  moreover from at have "\<exists>r. snd (generateImagePost openai_up only_openai shoes_request) = Inr r
        \<and> characters (stats r) = 25 \<and> words (stats r) = 4 \<and> readTime (stats r) = ascii ''1 sec''"
    by (simp add: shoes_image_post)
  moreover from at have "\<exists>r. snd (generateVideoScript openai_up only_openai shoes_video) = Inr r
        \<and> characters (stats r) = 0 \<and> words (stats r) = 1 \<and> readTime (stats r) = ascii ''1 sec''"
    by (simp add: shoes_video_script)
  ultimately show ?thesis by blast
qed

subsection \<open>Credits\<close>

lemma ugcAdRoute_credits: "ugcAdRoute w s supabase r = Inr a \<Longrightarrow> ad_creditsUsed a = 2"
  by (auto simp add: ugcAdRoute_def and_then_def Let_def
      split: sum.splits option.splits json.splits)

text \<open>
  C9. Every successful generation reports a fixed number of credits, whatever the request and
  the provider's output: 1 for a text post, 2 for an image post, 3 for a video script, and 2
  in the answer of the UGC ad route.
\<close>

theorem credits_used_per_kind:
  "(\<forall>r. snd (generateTextPost w c request) = Inr r \<longrightarrow> creditsUsed r = 1)
   \<and> (\<forall>r. snd (generateImagePost w c request) = Inr r \<longrightarrow> creditsUsed r = 2)
   \<and> (\<forall>r. snd (generateVideoScript w c vrequest) = Inr r \<longrightarrow> creditsUsed r = 3)
   \<and> (\<forall>a. ugcAdRoute w s supabase arequest = Inr a \<longrightarrow> ad_creditsUsed a = 2)"
proof (intro conjI allI impI)
  fix r
  assume "snd (generateTextPost w c request) = Inr r"
  then obtain result where "textPostResponse w request result = Inr r"
    unfolding text_post_result by (blast dest: and_then_Inr)
  then show "creditsUsed r = 1"
    by (elim textPostResponse_Inr) (cases r, auto)
next
  fix r
  assume "snd (generateImagePost w c request) = Inr r"
  then obtain result where "imagePostResponse request result = Inr r"
    unfolding image_post_result by (blast dest: and_then_Inr)
  then show "creditsUsed r = 2"
    by (elim imagePostResponse_Inr) (cases r, auto)
next
  fix r
  assume "snd (generateVideoScript w c vrequest) = Inr r"
  then obtain result where "videoScriptResponse vrequest result = Inr r"
    unfolding video_script_result by (blast dest: and_then_Inr)
  then show "creditsUsed r = 3"
    by (elim videoScriptResponse_Inr) (cases r, auto)
next
  fix a
  assume "ugcAdRoute w s supabase arequest = Inr a"
  then show "ad_creditsUsed a = 2"
    by (rule ugcAdRoute_credits)
qed

lemma shoes_ad_names:
  "adTypeName shoes_ad = Own (ascii ''Testimonial'')"
  "styleDesc shoes_ad = Own (ascii ''Clean, simple, modern'')"
  by (simp_all add: adTypeName_def styleDesc_def index_def adTypeMap_def styleMap_def
      shoes_ad_def ascii_def)

lemma service_configured: "isConfigured service"
  by (simp add: isConfigured_def service_def ascii_def)

lemma prose_is_no_json:
  "JSON_parse prose_ad (trim (strip_fence (trim (ascii ''Sure! Here is your ad.''))))
     = Inl (ascii ''Unexpected token'')"
  by (simp add: prose_ad_def all_down_def sample_parse_def shoes_text_def strip_fence_def
      startsWith_def endsWith_def trim_def is_white_def ascii_def)

lemma prose_ad_content:
  "generateUGCAdContent prose_ad service shoes_ad =
     fallback prose_ad shoes_ad (Own (ascii ''Testimonial'')) (Own (ascii ''Clean, simple, modern''))"
proof -
  have "ad_reply prose_ad = Inr (ascii ''Sure! Here is your ad.'')"
    by (simp add: prose_ad_def all_down_def)
  then show ?thesis
    unfolding generateUGCAdContent_def Let_def
    by (simp only: service_configured prose_is_no_json shoes_ad_names sum.case not_True_eq_False if_False)
qed

lemma prose_ad_route:
  "ugcAdRoute prose_ad service True shoes_ad =
     Inr \<lparr>ad_success = True,
          ad_imagePrompt = ascii ''Create a realistic UGC-style testimonial ad for Air Run. Light running shoes. Visual style: Clean, simple, modern. Mood: happy. Make it look authentic, natural, and user-generated.'',
          ad_caption = Some (JStr (ascii ''Just tried Air Run and I'm obsessed! '' @ [0xD83D, 0xDE0D]
             @ ascii '' Light running shoes... You NEED to try this!'')),
          ad_hashtags = Some (JArr [JStr (ascii ''#AirRun''), JStr (ascii ''#UGC''),
             JStr (ascii ''#Viral''), JStr (ascii ''#MustTry''), JStr (ascii ''#ProductReview'')]),
          ad_cta = Some (JStr (ascii ''Tap the link in bio to get Air Run now!'')),
          ad_stats_field = ad_stats, ad_creditsUsed = 2, ad_creditsRemaining = 1000,
          generatedImageUrl = None\<rparr>"
  unfolding ugcAdRoute_def prose_ad_content
  by (simp add: and_then_def fallback_def generateImage_def service_configured Let_def
      prose_ad_def all_down_def lower_ascii_def shoes_ad_def is_white_def ascii_def)

theorem credits_used_per_kind_witness:
  "(\<exists>r. snd (generateTextPost openai_up only_openai shoes_request) = Inr r \<and> creditsUsed r = 1)
   \<and> (\<exists>r. snd (generateImagePost openai_up only_openai shoes_request) = Inr r \<and> creditsUsed r = 2)
   \<and> (\<exists>r. snd (generateVideoScript openai_up only_openai shoes_video) = Inr r \<and> creditsUsed r = 3)
   \<and> (\<exists>a. ugcAdRoute prose_ad service True shoes_ad = Inr a \<and> ad_creditsUsed a = 2)"
proof -
  note at = credits_used_per_kind [of openai_up only_openai shoes_request shoes_video]
  note ad = credits_used_per_kind [of prose_ad only_openai shoes_request shoes_video
      service True shoes_ad]
  from at have "\<exists>r. snd (generateTextPost openai_up only_openai shoes_request) = Inr r \<and> creditsUsed r = 1"
    by (simp add: shoes_text_post)
  moreover from at have "\<exists>r. snd (generateImagePost openai_up only_openai shoes_request) = Inr r \<and> creditsUsed r = 2"
    by (simp add: shoes_image_post)
  moreover from at have "\<exists>r. snd (generateVideoScript openai_up only_openai shoes_video) = Inr r \<and> creditsUsed r = 3"
    by (simp add: shoes_video_script)
  moreover from ad have "\<exists>a. ugcAdRoute prose_ad service True shoes_ad = Inr a \<and> ad_creditsUsed a = 2"
    by (simp add: prose_ad_route)
  ultimately show ?thesis by blast
qed

subsection \<open>The platform table\<close>

lemma known_platform:
  "map_of platforms p = Some profile \<Longrightarrow> getPlatformContext p = Own profile"
  by (simp add: getPlatformContext_def index_def)

lemma unknown_platform_defaults:
  assumes "p \<notin> fst ` set platforms" and "p \<notin> set object_prototype_names"
  shows "getPlatformContext p = Own instagram"
proof -
  from assms(1) have "map_of platforms p = None"
    by (simp add: map_of_eq_None_iff)
  with assms(2) show ?thesis
    by (simp add: getPlatformContext_def index_def)
qed

text \<open>
  C10, as stated, fails: the platform string \<open>constructor\<close> is no key of the table, and
  \<open>platforms[platform]\<close> is then the member inherited from \<open>Object.prototype\<close>, which is
  truthy, so the lookup returns it and not the instagram profile.
\<close>

theorem inherited_name_is_not_defaulted:
  "ascii ''constructor'' \<notin> fst ` set platforms
   \<and> getPlatformContext (ascii ''constructor'') = Inherited (ascii ''constructor'')
   \<and> getPlatformContext (ascii ''constructor'') \<noteq> Own instagram"
  by (simp add: getPlatformContext_def index_def platforms_def object_prototype_names_def ascii_def)

text \<open>
  C10, amended. The lookup returns a value for every platform string and never fails: for a
  key of the table, and the six platforms of the enum are its keys, that platform's profile;
  for any other string that is not the name of a member of \<open>Object.prototype\<close> the
  instagram profile; and for such a name the inherited member.
\<close>

theorem platform_lookup_with_default:
  "(\<forall>profile. map_of platforms p = Some profile \<longrightarrow> getPlatformContext p = Own profile)
   \<and> (p \<notin> fst ` set platforms \<and> p \<notin> set object_prototype_names
        \<longrightarrow> getPlatformContext p = Own instagram)
   \<and> (p \<notin> fst ` set platforms \<and> p \<in> set object_prototype_names
        \<longrightarrow> getPlatformContext p = Inherited p)
   \<and> map fst platforms = map ascii [''instagram'', ''linkedin'', ''twitter'', ''facebook'',
        ''tiktok'', ''youtube'']
   \<and> map_of platforms (ascii ''instagram'') = Some instagram"
proof -
  have inherited: "getPlatformContext p = Inherited p"
    if "p \<notin> fst ` set platforms" and "p \<in> set object_prototype_names"
  proof -
    from that(1) have "map_of platforms p = None"
      by (simp add: map_of_eq_None_iff)
    with that(2) show ?thesis
      by (simp add: getPlatformContext_def index_def)
  qed
  have keys: "map fst platforms = map ascii [''instagram'', ''linkedin'', ''twitter'', ''facebook'',
        ''tiktok'', ''youtube'']"
    by (simp add: platforms_def)
  have first: "map_of platforms (ascii ''instagram'') = Some instagram"
    by (simp add: platforms_def)
  from known_platform [of p] unknown_platform_defaults [of p] inherited keys first
  show ?thesis
    by blast
qed

text \<open>A platform of the enum and a string outside it.\<close>

theorem platform_lookup_with_default_witness:
  "map_of platforms (ascii ''twitter'')
     = Some \<lparr>charLimit = 280, hashtagLimit = 3,
         bestPractices = ascii ''Be concise, use hooks, create threads for longer content.''\<rparr>
   \<and> getPlatformContext (ascii ''twitter'')
     = Own \<lparr>charLimit = 280, hashtagLimit = 3,
         bestPractices = ascii ''Be concise, use hooks, create threads for longer content.''\<rparr>
   \<and> ascii ''mastodon'' \<notin> fst ` set platforms
   \<and> ascii ''mastodon'' \<notin> set object_prototype_names
   \<and> getPlatformContext (ascii ''mastodon'') = Own instagram
   \<and> ascii ''toString'' \<notin> fst ` set platforms
   \<and> ascii ''toString'' \<in> set object_prototype_names
   \<and> getPlatformContext (ascii ''toString'') = Inherited (ascii ''toString'')"
proof -
  have tw: "map_of platforms (ascii ''twitter'')
     = Some \<lparr>charLimit = 280, hashtagLimit = 3,
         bestPractices = ascii ''Be concise, use hooks, create threads for longer content.''\<rparr>"
    by (simp add: platforms_def ascii_def)
  have ma: "ascii ''mastodon'' \<notin> fst ` set platforms \<and> ascii ''mastodon'' \<notin> set object_prototype_names"
    by (simp add: platforms_def object_prototype_names_def ascii_def)
  have ts: "ascii ''toString'' \<notin> fst ` set platforms \<and> ascii ''toString'' \<in> set object_prototype_names"
    by (simp add: platforms_def object_prototype_names_def ascii_def)
  from platform_lookup_with_default [of "ascii ''twitter''"] tw
  have one: "getPlatformContext (ascii ''twitter'')
     = Own \<lparr>charLimit = 280, hashtagLimit = 3,
         bestPractices = ascii ''Be concise, use hooks, create threads for longer content.''\<rparr>"
    by blast
  from platform_lookup_with_default [of "ascii ''mastodon''"] ma
  have two: "getPlatformContext (ascii ''mastodon'') = Own instagram"
    by blast
  from platform_lookup_with_default [of "ascii ''toString''"] ts
  have three: "getPlatformContext (ascii ''toString'') = Inherited (ascii ''toString'')"
    by blast
  from tw ma ts one two three show ?thesis
    by blast
qed

subsection \<open>Complete results\<close>




















end
